theory Spec2Isabelle
  imports Main
begin

section \<open>Data model\<close>

text \<open>
  The tunnel model of the remote explorer service
  (\<^verbatim>\<open>TunnelModel\<close>, \<^verbatim>\<open>userDataSync.contribution.ts\<close> lines 49 to 139) and the
  projection the tunnel view derives from it (\<^verbatim>\<open>TunnelViewModel\<close>, the tunnel view
  file, lines 59 to 132 and 320 to 375).

  Port numbers are JavaScript numbers; they are only compared for equality and used as
  \<^verbatim>\<open>Map\<close> keys, so they are modelled as \<open>int\<close>. A \<^verbatim>\<open>URI\<close> is an object, hence
  always truthy when present; its content is irrelevant here and modelled as a string.
  An optional field (\<^verbatim>\<open>local?: number\<close>) is an \<open>option\<close>, with \<open>None\<close> for
  \<^verbatim>\<open>undefined\<close>.
\<close>

type_synonym URI = string

record Tunnel =
  remote :: int
  localUri :: URI
  local :: "int option"
  name :: "string option"
  description :: "string option"
  closeable :: "bool option"

text \<open>
  Modelled from the spec: the type \<^verbatim>\<open>RemoteTunnel\<close> of the tunnel service
  (\<^verbatim>\<open>vs/platform/remote/common/tunnel\<close>) is imported by the source but not part of it.
  The spec gives its shape as \<^verbatim>\<open>{remotePort, localPort?, localAddress?}\<close>; the source
  reads the fields \<^verbatim>\<open>tunnelRemotePort\<close>, \<^verbatim>\<open>tunnelLocalPort\<close> and
  \<^verbatim>\<open>localAddress\<close> and tests the last one for truthiness.
\<close>

record RemoteTunnel =
  tunnelRemotePort :: int
  tunnelLocalPort :: "int option"
  localAddress :: "URI option"

subsection \<open>JavaScript \<^verbatim>\<open>Map\<close> with number keys\<close>

text \<open>
  A \<^verbatim>\<open>Map\<close> iterates in insertion order, \<^verbatim>\<open>set\<close> on a key that is present
  replaces the value where it stands, \<^verbatim>\<open>set\<close> on a new key appends, and
  \<^verbatim>\<open>delete\<close> removes the key. The model is an association list in insertion order.
\<close>

type_synonym 'v js_map = "(int \<times> 'v) list"

fun map_has :: "'v js_map \<Rightarrow> int \<Rightarrow> bool" where
  "map_has [] k = False"
| "map_has ((k', v) # m) k = (k' = k \<or> map_has m k)"

fun map_get :: "'v js_map \<Rightarrow> int \<Rightarrow> 'v option" where
  "map_get [] k = None"
| "map_get ((k', v) # m) k = (if k' = k then Some v else map_get m k)"

fun map_set :: "'v js_map \<Rightarrow> int \<Rightarrow> 'v \<Rightarrow> 'v js_map" where
  "map_set [] k v = [(k, v)]"
| "map_set ((k', v') # m) k v =
     (if k' = k then (k, v) # m else (k', v') # map_set m k v)"

fun map_delete :: "'v js_map \<Rightarrow> int \<Rightarrow> 'v js_map" where
  "map_delete [] k = []"
| "map_delete ((k', v') # m) k =
     (if k' = k then map_delete m k else (k', v') # map_delete m k)"

text \<open>
  \<^verbatim>\<open>m.get(k)!.field = x\<close> on a key that is present: the stored object is changed
  where it stands.
\<close>

fun map_modify :: "'v js_map \<Rightarrow> int \<Rightarrow> ('v \<Rightarrow> 'v) \<Rightarrow> 'v js_map" where
  "map_modify [] k f = []"
| "map_modify ((k', v) # m) k f =
     (if k' = k then (k', f v) # m else (k', v) # map_modify m k f)"

definition map_size :: "'v js_map \<Rightarrow> nat" where
  "map_size m = length m"

definition map_values :: "'v js_map \<Rightarrow> 'v list" where
  "map_values m = map snd m"

subsection \<open>Emitters, service calls and promises\<close>

text \<open>
  The three emitters \<^verbatim>\<open>_onForwardPort\<close>, \<^verbatim>\<open>_onClosePort\<close> and \<^verbatim>\<open>_onPortName\<close>
  are modelled by the list of events fired so far, oldest first. The payload of
  \<^verbatim>\<open>_onForwardPort\<close> is the value handed to \<^verbatim>\<open>fire\<close>: \<open>None\<close> is
  \<^verbatim>\<open>undefined\<close>.
\<close>

datatype event = ForwardPort "Tunnel option" | ClosePort int | PortName int

datatype service_call = OpenTunnel int "int option" | CloseTunnel int

datatype 'a promise = Fulfilled 'a | Rejected

record TunnelModel =
  forwarded :: "Tunnel js_map"
  published :: "Tunnel js_map"
  candidates :: "Tunnel js_map"
  fired :: "event list"
  calls :: "service_call list"

section \<open>TunnelModel\<close>

text \<open>The constructor, lines 68 to 106: three empty maps, nothing fired.\<close>

definition TunnelModel_new :: TunnelModel where
  "TunnelModel_new =
     \<lparr>forwarded = [], published = [], candidates = [], fired = [], calls = []\<rparr>"

text \<open>
  The callback of \<^verbatim>\<open>tunnelService.tunnels.then\<close>, lines 73 to 83, run once the
  service has answered with its list of tunnels.
\<close>

fun seed :: "TunnelModel \<Rightarrow> RemoteTunnel list \<Rightarrow> TunnelModel" where
  "seed m [] = m"
| "seed m (tunnel # tunnels) =
     seed (case localAddress tunnel of
             Some a \<Rightarrow>
               m\<lparr>forwarded := map_set (forwarded m) (tunnelRemotePort tunnel)
                    \<lparr>remote = tunnelRemotePort tunnel, localUri = a,
                     local = tunnelLocalPort tunnel, name = None,
                     description = None, closeable = None\<rparr>\<rparr>
           | None \<Rightarrow> m) tunnels"

text \<open>The handler registered with \<^verbatim>\<open>onTunnelOpened\<close>, lines 87 to 99.\<close>

definition onTunnelOpened :: "TunnelModel \<Rightarrow> RemoteTunnel \<Rightarrow> TunnelModel" where
  "onTunnelOpened m tunnel =
     (let m1 = (if map_has (candidates m) (tunnelRemotePort tunnel)
                then m\<lparr>candidates := map_delete (candidates m) (tunnelRemotePort tunnel)\<rparr>
                else m);
          m2 = (if \<not> map_has (forwarded m1) (tunnelRemotePort tunnel)
                then (case localAddress tunnel of
                        Some a \<Rightarrow>
                          m1\<lparr>forwarded := map_set (forwarded m1) (tunnelRemotePort tunnel)
                               \<lparr>remote = tunnelRemotePort tunnel, localUri = a,
                                local = tunnelLocalPort tunnel, name = None,
                                description = None, closeable = None\<rparr>\<rparr>
                      | None \<Rightarrow> m1)
                else m1)
      in m2\<lparr>fired := fired m2 @
               [ForwardPort (map_get (forwarded m2) (tunnelRemotePort tunnel))]\<rparr>)"

text \<open>The handler registered with \<^verbatim>\<open>onTunnelClosed\<close>, lines 100 to 105.\<close>

definition onTunnelClosed :: "TunnelModel \<Rightarrow> int \<Rightarrow> TunnelModel" where
  "onTunnelClosed m remotePort =
     (if map_has (forwarded m) remotePort
      then m\<lparr>forwarded := map_delete (forwarded m) remotePort,
             fired := fired m @ [ClosePort remotePort]\<rparr>
      else m)"

text \<open>
  \<^verbatim>\<open>forward\<close>, lines 108 to 123. The answer of \<^verbatim>\<open>openTunnel\<close> is an argument:
  the promise is rejected, or fulfilled with \<^verbatim>\<open>undefined\<close> or with a tunnel.
  \<open>forward_resume\<close> is the part after the \<^verbatim>\<open>await\<close> (lines 111 to 121), which
  runs on the state of the moment the answer arrives; \<open>forward\<close> is the whole call
  when nothing else runs in between. The second component is how the promise returned
  by \<^verbatim>\<open>forward\<close> settles.
\<close>

definition forward_resume ::
  "TunnelModel \<Rightarrow> int \<Rightarrow> string option \<Rightarrow> RemoteTunnel option promise
     \<Rightarrow> TunnelModel \<times> unit promise" where
  "forward_resume m rport nm answer =
     (case answer of
        Rejected \<Rightarrow> (m, Rejected)
      | Fulfilled None \<Rightarrow> (m, Fulfilled ())
      | Fulfilled (Some tunnel) \<Rightarrow>
          (case localAddress tunnel of
             None \<Rightarrow> (m, Fulfilled ())
           | Some a \<Rightarrow>
               (let newForward =
                      \<lparr>remote = tunnelRemotePort tunnel, localUri = a,
                       local = tunnelLocalPort tunnel, name = nm,
                       description = None, closeable = Some True\<rparr>
                in (m\<lparr>forwarded := map_set (forwarded m) rport newForward,
                       fired := fired m @ [ForwardPort (Some newForward)]\<rparr>,
                    Fulfilled ()))))"

definition forward ::
  "TunnelModel \<Rightarrow> int \<Rightarrow> int option \<Rightarrow> string option \<Rightarrow> RemoteTunnel option promise
     \<Rightarrow> TunnelModel \<times> unit promise" where
  "forward m rport lport nm answer =
     (if \<not> map_has (forwarded m) rport
      then forward_resume (m\<lparr>calls := calls m @ [OpenTunnel rport lport]\<rparr>) rport nm answer
      else (m, Fulfilled ()))"

text \<open>
  \<^verbatim>\<open>name\<close>, lines 125 to 130 (the field \<open>name\<close> of a tunnel has the name already).
\<close>

definition name_op :: "TunnelModel \<Rightarrow> int \<Rightarrow> string \<Rightarrow> TunnelModel" where
  "name_op m rport nm =
     (if map_has (forwarded m) rport
      then m\<lparr>forwarded := map_modify (forwarded m) rport (\<lambda>t. t\<lparr>name := Some nm\<rparr>),
             fired := fired m @ [PortName rport]\<rparr>
      else m)"

text \<open>
  \<^verbatim>\<open>close\<close>, lines 132 to 134: the promise of \<^verbatim>\<open>closeTunnel\<close> is handed back.
\<close>

definition close :: "TunnelModel \<Rightarrow> int \<Rightarrow> unit promise \<Rightarrow> TunnelModel \<times> unit promise" where
  "close m rport answer = (m\<lparr>calls := calls m @ [CloseTunnel rport]\<rparr>, answer)"

text \<open>\<^verbatim>\<open>address\<close>, lines 136 to 138. A stored tunnel is an object, hence truthy.\<close>

definition address :: "TunnelModel \<Rightarrow> int \<Rightarrow> URI option" where
  "address m rport =
     (case map_get (forwarded m) rport of
        Some t \<Rightarrow> Some (localUri t)
      | None \<Rightarrow>
          (case map_get (published m) rport of
             Some t \<Rightarrow> Some (localUri t)
           | None \<Rightarrow> None))"

section \<open>TunnelViewModel\<close>

datatype TunnelType = Candidate | Published | Forwarded | Add

text \<open>
  \<^verbatim>\<open>class TunnelItem\<close>, lines 343 to 352 of the tunnel view: the constructor takes
  its arguments by position, \<^verbatim>\<open>tunnelType, remote, closeable, name, _description, local\<close>.
\<close>

datatype TunnelItem =
  TunnelItem (item_tunnelType: TunnelType) (item_remote: int)
    (item_closeable: "bool option") (item_name: "string option")
    (item_description: "string option") (item_local: "int option")

text \<open>
  \<^verbatim>\<open>interface ITunnelGroup\<close>, lines 327 to 331. \<^verbatim>\<open>nls.localize\<close> is taken at its
  default message.
\<close>

record ITunnelGroup =
  label :: string
  tunnelType :: TunnelType
  items :: "TunnelItem list option"

text \<open>The getters \<^verbatim>\<open>forwarded\<close> and \<^verbatim>\<open>published\<close>, lines 104 to 114.\<close>

definition forwarded_items :: "TunnelModel \<Rightarrow> TunnelItem list" where
  "forwarded_items m =
     map (\<lambda>tunnel. TunnelItem Forwarded (remote tunnel) (closeable tunnel) (name tunnel)
                     (description tunnel) (local tunnel))
         (map_values (forwarded m))"

definition published_items :: "TunnelModel \<Rightarrow> TunnelItem list" where
  "published_items m =
     map (\<lambda>tunnel. TunnelItem Published (remote tunnel) (Some False) (name tunnel)
                     (description tunnel) (local tunnel))
         (map_values (published m))"

text \<open>
  The getter \<^verbatim>\<open>candidates\<close>, lines 116 to 127: the \<^verbatim>\<open>while\<close> loop over the
  iterator of the values, pushing onto the array \<open>acc\<close>.
\<close>

fun candidates_loop :: "TunnelModel \<Rightarrow> Tunnel list \<Rightarrow> TunnelItem list \<Rightarrow> TunnelItem list" where
  "candidates_loop m [] acc = acc"
| "candidates_loop m (v # vs) acc =
     candidates_loop m vs
       (if \<not> map_has (forwarded m) (remote v) \<and> \<not> map_has (published m) (remote v)
        then acc @ [TunnelItem Candidate (remote v) (Some False) None (description v) None]
        else acc)"

definition candidates_items :: "TunnelModel \<Rightarrow> TunnelItem list" where
  "candidates_items m = candidates_loop m (map_values (candidates m)) []"

text \<open>The getter \<^verbatim>\<open>groups\<close>, lines 73 to 102: up to four pushes, in this order.\<close>

definition groups :: "TunnelModel \<Rightarrow> ITunnelGroup list" where
  "groups m =
     (let g0 = [];
          g1 = (if map_size (forwarded m) > 0
                then g0 @ [\<lparr>label = ''Forwarded'', tunnelType = Forwarded,
                            items = Some (forwarded_items m)\<rparr>]
                else g0);
          g2 = (if map_size (published m) > 0
                then g1 @ [\<lparr>label = ''Published'', tunnelType = Published,
                            items = Some (published_items m)\<rparr>]
                else g1);
          cs = candidates_items m;
          g3 = (if length (candidates_items m) > 0
                then g2 @ [\<lparr>label = ''Candidates'', tunnelType = Candidate,
                            items = Some cs\<rparr>]
                else g2)
      in g3 @ [\<lparr>label = ''Add a Port...'', tunnelType = Add, items = None\<rparr>])"

section \<open>Runs of the model\<close>

text \<open>
  Everything that changes a \<^verbatim>\<open>TunnelModel\<close>: the seeding callback, the two
  notification handlers and the public methods. \<open>ForwardResume\<close> is the continuation
  of a \<^verbatim>\<open>forward\<close> call whose answer arrives after other steps have run.
\<close>

datatype action =
    Seed "RemoteTunnel list"
  | TunnelOpened RemoteTunnel
  | TunnelClosed int
  | Forward int "int option" "string option" "RemoteTunnel option promise"
  | ForwardResume int "string option" "RemoteTunnel option promise"
  | Name int string
  | Close int "unit promise"

fun step :: "TunnelModel \<Rightarrow> action \<Rightarrow> TunnelModel" where
  "step m (Seed tunnels) = seed m tunnels"
| "step m (TunnelOpened tunnel) = onTunnelOpened m tunnel"
| "step m (TunnelClosed remotePort) = onTunnelClosed m remotePort"
| "step m (Forward rport lport nm answer) = fst (forward m rport lport nm answer)"
| "step m (ForwardResume rport nm answer) = fst (forward_resume m rport nm answer)"
| "step m (Name rport nm) = name_op m rport nm"
| "step m (Close rport answer) = fst (close m rport answer)"

definition run :: "action list \<Rightarrow> TunnelModel" where
  "run acts = foldl step TunnelModel_new acts"

section \<open>Facts about the map operations\<close>

lemma map_has_get: "map_has m k \<longleftrightarrow> map_get m k \<noteq> None"
  by (induction m) auto

lemma map_get_set: "map_get (map_set m k v) k' = (if k' = k then Some v else map_get m k')"
  by (induction m) auto

lemma map_has_set: "map_has (map_set m k v) k' \<longleftrightarrow> k' = k \<or> map_has m k'"
  by (simp add: map_has_get map_get_set)

lemma map_delete_filter: "map_delete m k = filter (\<lambda>p. fst p \<noteq> k) m"
  by (induction m) auto

lemma map_get_delete: "map_get (map_delete m k) k' = (if k' = k then None else map_get m k')"
  by (induction m) auto

lemma map_has_delete: "map_has (map_delete m k) k' \<longleftrightarrow> k' \<noteq> k \<and> map_has m k'"
  by (simp add: map_has_get map_get_delete)

lemma map_get_modify:
  "map_get (map_modify m k f) k' = (if k' = k then map_option f (map_get m k) else map_get m k')"
  by (induction m) auto

lemma map_keys_modify: "map fst (map_modify m k f) = map fst m"
  by (induction m) auto

lemma map_has_modify: "map_has (map_modify m k f) k' = map_has m k'"
  by (simp add: map_has_get map_get_modify)


section \<open>Facts about the view model and the steps\<close>

text \<open>
  The loop of the getter \<^verbatim>\<open>candidates\<close> is a filter followed by a map: it keeps the
  candidates whose \<^verbatim>\<open>remote\<close> is a key of neither \<^verbatim>\<open>forwarded\<close> nor \<^verbatim>\<open>published\<close>.
\<close>

lemma candidates_loop_filter:
  "candidates_loop m vs acc =
     acc @ map (\<lambda>v. TunnelItem Candidate (remote v) (Some False) None (description v) None)
             (filter (\<lambda>v. \<not> map_has (forwarded m) (remote v) \<and> \<not> map_has (published m) (remote v)) vs)"
  by (induction vs arbitrary: acc) auto

lemma candidates_items_filter:
  "candidates_items m =
     map (\<lambda>v. TunnelItem Candidate (remote v) (Some False) None (description v) None)
       (filter (\<lambda>v. \<not> map_has (forwarded m) (remote v) \<and> \<not> map_has (published m) (remote v))
          (map_values (candidates m)))"
  by (simp add: candidates_items_def candidates_loop_filter)

text \<open>
  The getter \<^verbatim>\<open>groups\<close>: the kinds and labels in order, the last group, and the
  items each kind of group carries.
\<close>

lemma groups_types_labels:
  "map (\<lambda>g. (tunnelType g, label g)) (groups m) =
     (if forwarded m \<noteq> [] then [(Forwarded, ''Forwarded'')] else []) @
     (if published m \<noteq> [] then [(Published, ''Published'')] else []) @
     (if filter (\<lambda>v. \<not> map_has (forwarded m) (remote v) \<and> \<not> map_has (published m) (remote v))
           (map_values (candidates m)) \<noteq> []
      then [(Candidate, ''Candidates'')] else []) @
     [(Add, ''Add a Port...'')]"
  by (simp add: groups_def Let_def map_size_def candidates_items_filter)

lemma groups_last:
  "last (groups m) = \<lparr>label = ''Add a Port...'', tunnelType = Add, items = None\<rparr>"
  by (simp add: groups_def Let_def)

lemma groups_items:
  assumes "g \<in> set (groups m)"
  shows "(tunnelType g = Forwarded \<longrightarrow> items g = Some (forwarded_items m)) \<and>
         (tunnelType g = Published \<longrightarrow> items g = Some (published_items m)) \<and>
         (tunnelType g = Candidate \<longrightarrow> items g = Some (candidates_items m))"
  using assms by (auto simp: groups_def Let_def split: if_splits)

text \<open>
  Seeding touches \<^verbatim>\<open>forwarded\<close> only, and only by \<^verbatim>\<open>set\<close>.
\<close>

lemma seed_frame:
  "published (seed m ts) = published m \<and> candidates (seed m ts) = candidates m \<and>
   fired (seed m ts) = fired m \<and> calls (seed m ts) = calls m"
  by (induction ts arbitrary: m) (auto split: option.splits)

lemma seed_has: "map_has (forwarded m) k \<Longrightarrow> map_has (forwarded (seed m ts)) k"
  by (induction ts arbitrary: m) (auto split: option.splits simp: map_has_set)

text \<open>
  No step other than the close notification for \<open>k\<close> removes the key \<open>k\<close> from
  \<^verbatim>\<open>forwarded\<close>; no step writes \<^verbatim>\<open>published\<close>; no step adds to \<^verbatim>\<open>candidates\<close>.
\<close>

lemma step_keeps_forwarded:
  "map_has (forwarded m) k \<Longrightarrow> act \<noteq> TunnelClosed k \<Longrightarrow> map_has (forwarded (step m act)) k"
proof (cases act)
  case (Seed ts)
  assume "map_has (forwarded m) k"
  then show ?thesis using Seed by (simp add: seed_has)
next
  case (TunnelOpened t)
  assume "map_has (forwarded m) k"
  then show ?thesis using TunnelOpened
    by (auto simp: onTunnelOpened_def Let_def map_has_set split: option.splits)
next
  case (TunnelClosed p)
  assume "map_has (forwarded m) k" and "act \<noteq> TunnelClosed k"
  then show ?thesis using TunnelClosed
    by (auto simp: onTunnelClosed_def map_has_delete)
next
  case (Forward r l n a)
  assume "map_has (forwarded m) k"
  then show ?thesis using Forward
    by (auto simp: forward_def forward_resume_def Let_def map_has_set
             split: option.splits promise.splits)
next
  case (ForwardResume r n a)
  assume "map_has (forwarded m) k"
  then show ?thesis using ForwardResume
    by (auto simp: forward_resume_def Let_def map_has_set split: option.splits promise.splits)
next
  case (Name r n)
  assume "map_has (forwarded m) k"
  then show ?thesis using Name by (simp add: name_op_def map_has_modify)
next
  case (Close r a)
  assume "map_has (forwarded m) k"
  then show ?thesis using Close by (simp add: close_def)
qed

lemma step_published: "published (step m act) = published m"
  by (cases act)
     (auto simp: seed_frame onTunnelOpened_def onTunnelClosed_def forward_def
                 forward_resume_def name_op_def close_def Let_def
           split: option.splits promise.splits)

lemma step_candidates_empty: "candidates m = [] \<Longrightarrow> candidates (step m act) = []"
  by (cases act)
     (auto simp: seed_frame onTunnelOpened_def onTunnelClosed_def forward_def
                 forward_resume_def name_op_def close_def Let_def
           split: option.splits promise.splits)

lemma foldl_step_empty:
  "published m = [] \<Longrightarrow> candidates m = [] \<Longrightarrow>
     published (foldl step m acts) = [] \<and> candidates (foldl step m acts) = []"
  by (induction acts arbitrary: m) (simp_all add: step_published step_candidates_empty)

lemma run_empty: "published (run acts) = [] \<and> candidates (run acts) = []"
  unfolding run_def by (rule foldl_step_empty) (simp_all add: TunnelModel_new_def)

text \<open>
  What the open notification always does: it fires one event whose payload is the
  result of \<^verbatim>\<open>forwarded.get\<close> at the tunnel's remote port, after the maps were updated.
  The payload is a tunnel whenever the port was present or the tunnel has an address.
\<close>

lemma onTunnelOpened_fires:
  "fired (onTunnelOpened m tunnel) =
     fired m @ [ForwardPort (map_get (forwarded (onTunnelOpened m tunnel)) (tunnelRemotePort tunnel))]"
  by (simp add: onTunnelOpened_def Let_def split: option.splits)

lemma onTunnelOpened_payload_defined:
  "map_has (forwarded m) (tunnelRemotePort tunnel) \<or> localAddress tunnel \<noteq> None \<Longrightarrow>
     map_get (forwarded (onTunnelOpened m tunnel)) (tunnelRemotePort tunnel) \<noteq> None"
  by (auto simp: onTunnelOpened_def Let_def map_get_set map_has_get split: option.splits)


lemma forward_resume_unresolved:
  "(case answer of
      Rejected \<Rightarrow> True
    | Fulfilled None \<Rightarrow> True
    | Fulfilled (Some tunnel) \<Rightarrow> localAddress tunnel = None) \<Longrightarrow>
   fst (forward_resume m rport nm answer) = m"
  by (auto simp: forward_resume_def split: promise.splits option.splits)

section \<open>The claims\<close>

subsection \<open>C1: the payload of the open notification\<close>

text \<open>
  C1 says that after every open notification for a remote port \<open>r\<close> the event fired
  carries the entry stored at \<open>r\<close>, and that this payload is a well-defined tunnel
  even when \<open>r\<close> was not in \<^verbatim>\<open>forwarded\<close> and the tunnel has no resolved address.
  The handler reads \<^verbatim>\<open>this.forwarded.get(tunnel.tunnelRemotePort)!\<close> (line 98) after an
  insertion that is guarded by \<^verbatim>\<open>tunnel.localAddress\<close> (line 91). On a fresh model and a
  tunnel for port 8080 without an address nothing is inserted, and the event is fired
  with \<^verbatim>\<open>undefined\<close>: the non-null assertion of line 98 does not hold.
\<close>

theorem onTunnelOpened_undefined_payload:
  "onTunnelOpened TunnelModel_new
     \<lparr>tunnelRemotePort = 8080, tunnelLocalPort = Some 8080, localAddress = None\<rparr>
   = TunnelModel_new\<lparr>fired := [ForwardPort None]\<rparr>"
  by (simp add: onTunnelOpened_def TunnelModel_new_def)

subsection \<open>C2: a successful \<^verbatim>\<open>forward\<close>\<close>




subsection \<open>C3: forwarded and published ports are no candidates\<close>

text \<open>
  C3: in every state of the model (reachable or not), a remote port that is a key of
  \<^verbatim>\<open>forwarded\<close> or of \<^verbatim>\<open>published\<close> is the \<^verbatim>\<open>remote\<close> of no item of the derived
  candidates list.
\<close>

theorem candidates_exclude:
  assumes "map_has (forwarded m) r \<or> map_has (published m) r"
  shows "r \<notin> item_remote ` set (candidates_items m)"
proof
  assume "r \<in> item_remote ` set (candidates_items m)"
  then obtain v where "v \<in> set (map_values (candidates m))"
      and kept: "\<not> map_has (forwarded m) (remote v) \<and> \<not> map_has (published m) (remote v)"
      and "remote v = r"
    by (auto simp: candidates_items_filter)
  with assms show False by simp
qed

theorem candidates_exclude_witness:
  "map_has (forwarded \<lparr>forwarded = [(3000, \<lparr>remote = 3000, localUri = ''http://localhost:3000'',
                                  local = Some 3000, name = None, description = None,
                                  closeable = Some True\<rparr>)],
        published = [],
        candidates = [(3000, \<lparr>remote = 3000, localUri = ''http://remote:3000'', local = None,
                               name = None, description = Some ''node'', closeable = None\<rparr>),
                      (4000, \<lparr>remote = 4000, localUri = ''http://remote:4000'', local = None,
                               name = None, description = Some ''python'', closeable = None\<rparr>)],
        fired = [], calls = []\<rparr>) 3000 \<and>
   candidates_items \<lparr>forwarded = [(3000, \<lparr>remote = 3000, localUri = ''http://localhost:3000'',
                                  local = Some 3000, name = None, description = None,
                                  closeable = Some True\<rparr>)],
        published = [],
        candidates = [(3000, \<lparr>remote = 3000, localUri = ''http://remote:3000'', local = None,
                               name = None, description = Some ''node'', closeable = None\<rparr>),
                      (4000, \<lparr>remote = 4000, localUri = ''http://remote:4000'', local = None,
                               name = None, description = Some ''python'', closeable = None\<rparr>)],
        fired = [], calls = []\<rparr>
     = [TunnelItem Candidate 4000 (Some False) None (Some ''python'') None] \<and>
   3000 \<notin> item_remote ` set (candidates_items
      \<lparr>forwarded = [(3000, \<lparr>remote = 3000, localUri = ''http://localhost:3000'',
                                  local = Some 3000, name = None, description = None,
                                  closeable = Some True\<rparr>)],
        published = [],
        candidates = [(3000, \<lparr>remote = 3000, localUri = ''http://remote:3000'', local = None,
                               name = None, description = Some ''node'', closeable = None\<rparr>),
                      (4000, \<lparr>remote = 4000, localUri = ''http://remote:4000'', local = None,
                               name = None, description = Some ''python'', closeable = None\<rparr>)],
        fired = [], calls = []\<rparr>)"
  using candidates_exclude [of
      "\<lparr>forwarded = [(3000, \<lparr>remote = 3000, localUri = ''http://localhost:3000'',
                                  local = Some 3000, name = None, description = None,
                                  closeable = Some True\<rparr>)],
        published = [],
        candidates = [(3000, \<lparr>remote = 3000, localUri = ''http://remote:3000'', local = None,
                               name = None, description = Some ''node'', closeable = None\<rparr>),
                      (4000, \<lparr>remote = 4000, localUri = ''http://remote:4000'', local = None,
                               name = None, description = Some ''python'', closeable = None\<rparr>)],
        fired = [], calls = []\<rparr>" 3000]
  by (simp add: candidates_items_def map_values_def)

subsection \<open>C4: \<^verbatim>\<open>forward\<close> without effect\<close>

text \<open>
  C4: if \<open>r\<close> is already a key of \<^verbatim>\<open>forwarded\<close> at call time, \<^verbatim>\<open>forward\<close> changes
  nothing at all and calls nothing. If the promise of \<^verbatim>\<open>openTunnel\<close> is rejected, or
  it is fulfilled with \<^verbatim>\<open>undefined\<close> or with a tunnel that has no address, then the
  part after the \<^verbatim>\<open>await\<close> leaves the state \<open>m'\<close> on which the answer arrives exactly
  as found, whatever ran in between; the whole call then only adds its
  \<^verbatim>\<open>openTunnel\<close> call. In each of these cases the three maps are as before and no
  event is fired.
\<close>

theorem forward_noop:
  "(map_has (forwarded m) r \<longrightarrow> forward m r l nm answer = (m, Fulfilled ()))
   \<and> ((case answer of
          Rejected \<Rightarrow> True
        | Fulfilled None \<Rightarrow> True
        | Fulfilled (Some tunnel) \<Rightarrow> localAddress tunnel = None) \<longrightarrow>
        fst (forward_resume m' r nm answer) = m'
      \<and> (\<not> map_has (forwarded m) r \<longrightarrow>
           fst (forward m r l nm answer) = m\<lparr>calls := calls m @ [OpenTunnel r l]\<rparr>))
   \<and> (map_has (forwarded m) r \<or>
        (case answer of
           Rejected \<Rightarrow> True
         | Fulfilled None \<Rightarrow> True
         | Fulfilled (Some tunnel) \<Rightarrow> localAddress tunnel = None) \<longrightarrow>
         forwarded (fst (forward m r l nm answer)) = forwarded m
       \<and> published (fst (forward m r l nm answer)) = published m
       \<and> candidates (fst (forward m r l nm answer)) = candidates m
       \<and> fired (fst (forward m r l nm answer)) = fired m)"
proof (intro conjI impI)
  assume "map_has (forwarded m) r"
  then show "forward m r l nm answer = (m, Fulfilled ())"
    by (simp add: forward_def)
next
  assume failing: "case answer of
          Rejected \<Rightarrow> True
        | Fulfilled None \<Rightarrow> True
        | Fulfilled (Some tunnel) \<Rightarrow> localAddress tunnel = None"
  then show "fst (forward_resume m' r nm answer) = m'"
    by (rule forward_resume_unresolved)
  assume "\<not> map_has (forwarded m) r"
  then show "fst (forward m r l nm answer) = m\<lparr>calls := calls m @ [OpenTunnel r l]\<rparr>"
    using failing by (simp add: forward_def forward_resume_unresolved)
next
  assume either: "map_has (forwarded m) r \<or>
        (case answer of
           Rejected \<Rightarrow> True
         | Fulfilled None \<Rightarrow> True
         | Fulfilled (Some tunnel) \<Rightarrow> localAddress tunnel = None)"
  then have frame: "fst (forward m r l nm answer) = m \<or>
      fst (forward m r l nm answer) = m\<lparr>calls := calls m @ [OpenTunnel r l]\<rparr>"
    by (auto simp: forward_def forward_resume_unresolved)
  from frame show "forwarded (fst (forward m r l nm answer)) = forwarded m" by auto
  from frame show "published (fst (forward m r l nm answer)) = published m" by auto
  from frame show "candidates (fst (forward m r l nm answer)) = candidates m" by auto
  from frame show "fired (fst (forward m r l nm answer)) = fired m" by auto
qed

theorem forward_noop_witness:
  "map_has (forwarded \<lparr>forwarded = [(3000, \<lparr>remote = 3000, localUri = ''http://localhost:3000'',
        local = Some 3000, name = None, description = None, closeable = Some True\<rparr>)],
      published = [], candidates = [], fired = [], calls = []\<rparr>) 3000
   \<and> forward \<lparr>forwarded = [(3000, \<lparr>remote = 3000, localUri = ''http://localhost:3000'',
        local = Some 3000, name = None, description = None, closeable = Some True\<rparr>)],
      published = [], candidates = [], fired = [], calls = []\<rparr> 3000 (Some 3001) (Some ''web'')
        (Fulfilled (Some \<lparr>tunnelRemotePort = 3000, tunnelLocalPort = Some 3001,
                          localAddress = Some ''http://localhost:3001''\<rparr>))
     = (\<lparr>forwarded = [(3000, \<lparr>remote = 3000, localUri = ''http://localhost:3000'',
        local = Some 3000, name = None, description = None, closeable = Some True\<rparr>)],
      published = [], candidates = [], fired = [], calls = []\<rparr>, Fulfilled ())
   \<and> \<not> map_has (forwarded TunnelModel_new) 8080
   \<and> fst (forward TunnelModel_new 8080 None None Rejected)
     = \<lparr>forwarded = [], published = [], candidates = [], fired = [],
        calls = [OpenTunnel 8080 None]\<rparr>
   \<and> fst (forward TunnelModel_new 8080 None None
        (Fulfilled (Some \<lparr>tunnelRemotePort = 8080, tunnelLocalPort = Some 8080,
                          localAddress = None\<rparr>)))
     = \<lparr>forwarded = [], published = [], candidates = [], fired = [],
        calls = [OpenTunnel 8080 None]\<rparr>
   \<and> fst (forward_resume
          \<lparr>forwarded = [(8080, \<lparr>remote = 8080, localUri = ''http://localhost:8080'',
              local = Some 8080, name = None, description = None, closeable = None\<rparr>)],
           published = [], candidates = [],
           fired = [ForwardPort (Some \<lparr>remote = 8080, localUri = ''http://localhost:8080'',
              local = Some 8080, name = None, description = None, closeable = None\<rparr>)],
           calls = [OpenTunnel 8080 None]\<rparr>
          8080 None Rejected)
     = \<lparr>forwarded = [(8080, \<lparr>remote = 8080, localUri = ''http://localhost:8080'',
              local = Some 8080, name = None, description = None, closeable = None\<rparr>)],
           published = [], candidates = [],
           fired = [ForwardPort (Some \<lparr>remote = 8080, localUri = ''http://localhost:8080'',
              local = Some 8080, name = None, description = None, closeable = None\<rparr>)],
           calls = [OpenTunnel 8080 None]\<rparr>"
proof -
  let ?held = "\<lparr>forwarded = [(3000, \<lparr>remote = 3000, localUri = ''http://localhost:3000'',
        local = Some 3000, name = None, description = None, closeable = Some True\<rparr>)],
      published = [], candidates = [], fired = [], calls = []\<rparr>"
  let ?later = "\<lparr>forwarded = [(8080, \<lparr>remote = 8080, localUri = ''http://localhost:8080'',
              local = Some 8080, name = None, description = None, closeable = None\<rparr>)],
           published = [], candidates = [],
           fired = [ForwardPort (Some \<lparr>remote = 8080, localUri = ''http://localhost:8080'',
              local = Some 8080, name = None, description = None, closeable = None\<rparr>)],
           calls = [OpenTunnel 8080 None]\<rparr>"
  show ?thesis
    using forward_noop [where m = ?held and r = 3000 and l = "Some 3001" and nm = "Some ''web''"
        and answer = "Fulfilled (Some \<lparr>tunnelRemotePort = 3000, tunnelLocalPort = Some 3001,
                          localAddress = Some ''http://localhost:3001''\<rparr>)" and m' = ?held]
      forward_noop [where m = TunnelModel_new and r = 8080 and l = None and nm = None
        and answer = Rejected and m' = ?later]
      forward_noop [where m = TunnelModel_new and r = 8080 and l = None and nm = None
        and answer = "Fulfilled (Some \<lparr>tunnelRemotePort = 8080, tunnelLocalPort = Some 8080,
                          localAddress = None\<rparr>)" and m' = ?later]
    by (simp add: TunnelModel_new_def)
qed

subsection \<open>C5: the close notification\<close>

text \<open>
  C5: on a close notification for \<open>r\<close>, if \<open>r\<close> is a key of \<^verbatim>\<open>forwarded\<close> then
  afterwards it is not, the other entries stay in their order, exactly one event is
  fired and it is the port-closed event for \<open>r\<close>, and the other two maps are
  untouched; if \<open>r\<close> is not a key, the whole state is unchanged.
\<close>

theorem onTunnelClosed_effect:
  fixes m :: TunnelModel and r :: int
  defines "m' \<equiv> onTunnelClosed m r"
  shows "(map_has (forwarded m) r \<longrightarrow>
            \<not> map_has (forwarded m') r
          \<and> forwarded m' = filter (\<lambda>p. fst p \<noteq> r) (forwarded m)
          \<and> fired m' = fired m @ [ClosePort r]
          \<and> published m' = published m \<and> candidates m' = candidates m)
       \<and> (\<not> map_has (forwarded m) r \<longrightarrow> m' = m)"
  unfolding m'_def
  by (simp add: onTunnelClosed_def map_has_delete map_delete_filter [symmetric])

theorem onTunnelClosed_effect_witness:
  "map_has (forwarded \<lparr>forwarded = [(3000, \<lparr>remote = 3000, localUri = ''http://localhost:3000'',
        local = Some 3000, name = None, description = None, closeable = Some True\<rparr>),
        (4000, \<lparr>remote = 4000, localUri = ''http://localhost:4000'',
        local = Some 4000, name = None, description = None, closeable = None\<rparr>)],
      published = [], candidates = [], fired = [], calls = []\<rparr>) 3000
   \<and> onTunnelClosed \<lparr>forwarded = [(3000, \<lparr>remote = 3000, localUri = ''http://localhost:3000'',
        local = Some 3000, name = None, description = None, closeable = Some True\<rparr>),
        (4000, \<lparr>remote = 4000, localUri = ''http://localhost:4000'',
        local = Some 4000, name = None, description = None, closeable = None\<rparr>)],
      published = [], candidates = [], fired = [], calls = []\<rparr> 3000
     = \<lparr>forwarded = [(4000, \<lparr>remote = 4000, localUri = ''http://localhost:4000'',
        local = Some 4000, name = None, description = None, closeable = None\<rparr>)],
      published = [], candidates = [], fired = [ClosePort 3000], calls = []\<rparr>
   \<and> \<not> map_has (forwarded TunnelModel_new) 3000
   \<and> onTunnelClosed TunnelModel_new 3000 = TunnelModel_new"
  using onTunnelClosed_effect [of "\<lparr>forwarded = [(3000, \<lparr>remote = 3000,
        localUri = ''http://localhost:3000'', local = Some 3000, name = None,
        description = None, closeable = Some True\<rparr>),
        (4000, \<lparr>remote = 4000, localUri = ''http://localhost:4000'',
        local = Some 4000, name = None, description = None, closeable = None\<rparr>)],
      published = [], candidates = [], fired = [], calls = []\<rparr>" 3000]
    onTunnelClosed_effect [of TunnelModel_new 3000]
  by (simp add: TunnelModel_new_def onTunnelClosed_def)

subsection \<open>C6: \<^verbatim>\<open>close\<close> only delegates\<close>

text \<open>
  C6: \<^verbatim>\<open>close\<close> changes none of the three maps and fires no event; it calls
  \<^verbatim>\<open>closeTunnel\<close> for the port and hands back that promise. A key \<open>k\<close> of
  \<^verbatim>\<open>forwarded\<close> can only disappear in a step that is the close notification for
  \<open>k\<close>.
\<close>

theorem close_delegates:
  "forwarded (fst (close m r answer)) = forwarded m
   \<and> published (fst (close m r answer)) = published m
   \<and> candidates (fst (close m r answer)) = candidates m
   \<and> fired (fst (close m r answer)) = fired m
   \<and> calls (fst (close m r answer)) = calls m @ [CloseTunnel r]
   \<and> snd (close m r answer) = answer
   \<and> (map_has (forwarded m) k \<and> \<not> map_has (forwarded (step m act)) k \<longrightarrow> act = TunnelClosed k)"
  using step_keeps_forwarded [of m k act] by (auto simp: close_def)

theorem close_delegates_witness:
  "map_has (forwarded \<lparr>forwarded = [(3000, \<lparr>remote = 3000, localUri = ''http://localhost:3000'',
        local = Some 3000, name = None, description = None, closeable = Some True\<rparr>)],
      published = [], candidates = [], fired = [], calls = []\<rparr>) 3000
   \<and> \<not> map_has (forwarded (step \<lparr>forwarded = [(3000, \<lparr>remote = 3000,
        localUri = ''http://localhost:3000'', local = Some 3000, name = None,
        description = None, closeable = Some True\<rparr>)],
      published = [], candidates = [], fired = [], calls = []\<rparr> (TunnelClosed 3000))) 3000
   \<and> fst (close \<lparr>forwarded = [(3000, \<lparr>remote = 3000, localUri = ''http://localhost:3000'',
        local = Some 3000, name = None, description = None, closeable = Some True\<rparr>)],
      published = [], candidates = [], fired = [], calls = []\<rparr> 3000 (Fulfilled ()))
     = \<lparr>forwarded = [(3000, \<lparr>remote = 3000, localUri = ''http://localhost:3000'',
        local = Some 3000, name = None, description = None, closeable = Some True\<rparr>)],
      published = [], candidates = [], fired = [], calls = [CloseTunnel 3000]\<rparr>"
  using close_delegates [of "\<lparr>forwarded = [(3000, \<lparr>remote = 3000,
        localUri = ''http://localhost:3000'', local = Some 3000, name = None,
        description = None, closeable = Some True\<rparr>)],
      published = [], candidates = [], fired = [], calls = []\<rparr>" 3000 "Fulfilled ()"
      3000 "TunnelClosed 3000"]
  by (simp add: close_def onTunnelClosed_def)

subsection \<open>C7: \<^verbatim>\<open>address\<close>\<close>

text \<open>
  C7: \<^verbatim>\<open>address\<close> gives the \<^verbatim>\<open>localUri\<close> of the entry of \<^verbatim>\<open>forwarded\<close> when
  there is one, else that of the entry of \<^verbatim>\<open>published\<close> when there is one, else
  nothing. It is a function of the state that returns no state: it changes none.
\<close>

theorem address_lookup:
  "(map_has (forwarded m) r \<longrightarrow>
      address m r = map_option localUri (map_get (forwarded m) r) \<and> address m r \<noteq> None)
   \<and> (\<not> map_has (forwarded m) r \<and> map_has (published m) r \<longrightarrow>
      address m r = map_option localUri (map_get (published m) r) \<and> address m r \<noteq> None)
   \<and> (\<not> map_has (forwarded m) r \<and> \<not> map_has (published m) r \<longrightarrow> address m r = None)"
proof (cases "map_get (forwarded m) r")
  case (Some t)
  then show ?thesis by (simp add: address_def map_has_get)
next
  case None
  then have absent: "\<not> map_has (forwarded m) r" by (simp add: map_has_get)
  show ?thesis
  proof (cases "map_get (published m) r")
    case (Some p)
    with None absent show ?thesis by (simp add: address_def map_has_get)
  next
    case unpublished: None
    with None absent show ?thesis by (simp add: address_def map_has_get)
  qed
qed

theorem address_lookup_witness:
  "address \<lparr>forwarded = [(3000, \<lparr>remote = 3000, localUri = ''http://localhost:3000'',
        local = Some 3000, name = None, description = None, closeable = Some True\<rparr>)],
      published = [(3000, \<lparr>remote = 3000, localUri = ''http://published:3000'',
        local = None, name = None, description = None, closeable = None\<rparr>),
        (5000, \<lparr>remote = 5000, localUri = ''http://published:5000'',
        local = None, name = None, description = None, closeable = None\<rparr>)],
      candidates = [], fired = [], calls = []\<rparr> 3000 = Some ''http://localhost:3000''
   \<and> address \<lparr>forwarded = [(3000, \<lparr>remote = 3000, localUri = ''http://localhost:3000'',
        local = Some 3000, name = None, description = None, closeable = Some True\<rparr>)],
      published = [(3000, \<lparr>remote = 3000, localUri = ''http://published:3000'',
        local = None, name = None, description = None, closeable = None\<rparr>),
        (5000, \<lparr>remote = 5000, localUri = ''http://published:5000'',
        local = None, name = None, description = None, closeable = None\<rparr>)],
      candidates = [], fired = [], calls = []\<rparr> 5000 = Some ''http://published:5000''
   \<and> address \<lparr>forwarded = [(3000, \<lparr>remote = 3000, localUri = ''http://localhost:3000'',
        local = Some 3000, name = None, description = None, closeable = Some True\<rparr>)],
      published = [(3000, \<lparr>remote = 3000, localUri = ''http://published:3000'',
        local = None, name = None, description = None, closeable = None\<rparr>),
        (5000, \<lparr>remote = 5000, localUri = ''http://published:5000'',
        local = None, name = None, description = None, closeable = None\<rparr>)],
      candidates = [], fired = [], calls = []\<rparr> 6000 = None"
proof -
  let ?m = "\<lparr>forwarded = [(3000, \<lparr>remote = 3000, localUri = ''http://localhost:3000'',
        local = Some 3000, name = None, description = None, closeable = Some True\<rparr>)],
      published = [(3000, \<lparr>remote = 3000, localUri = ''http://published:3000'',
        local = None, name = None, description = None, closeable = None\<rparr>),
        (5000, \<lparr>remote = 5000, localUri = ''http://published:5000'',
        local = None, name = None, description = None, closeable = None\<rparr>)],
      candidates = [], fired = [], calls = []\<rparr>"
  show ?thesis
    using address_lookup [of ?m 3000] address_lookup [of ?m 5000] address_lookup [of ?m 6000]
    by simp
qed

subsection \<open>C8: \<^verbatim>\<open>name\<close>\<close>

text \<open>
  C8: if \<open>r\<close> is a key of \<^verbatim>\<open>forwarded\<close>, then after \<^verbatim>\<open>name(r, n)\<close> the entry at
  \<open>r\<close> is the old one with \<^verbatim>\<open>name\<close> set to \<open>n\<close>, every other entry and the order of
  the keys are as before, exactly one event is fired and it is the name-changed event
  for \<open>r\<close>, and the other two maps are untouched; if \<open>r\<close> is not a key, the whole
  state is unchanged.
\<close>

theorem name_op_effect:
  fixes m :: TunnelModel and r :: int and n :: string
  defines "m' \<equiv> name_op m r n"
  shows "(map_has (forwarded m) r \<longrightarrow>
            map_get (forwarded m') r = map_option (\<lambda>t. t\<lparr>name := Some n\<rparr>) (map_get (forwarded m) r)
          \<and> map_option name (map_get (forwarded m') r) = Some (Some n)
          \<and> (\<forall>k. k \<noteq> r \<longrightarrow> map_get (forwarded m') k = map_get (forwarded m) k)
          \<and> map fst (forwarded m') = map fst (forwarded m)
          \<and> fired m' = fired m @ [PortName r]
          \<and> published m' = published m \<and> candidates m' = candidates m)
       \<and> (\<not> map_has (forwarded m) r \<longrightarrow> m' = m)"
  unfolding m'_def
  by (auto simp: name_op_def map_get_modify map_keys_modify map_has_get)

theorem name_op_effect_witness:
  "map_has (forwarded \<lparr>forwarded = [(3000, \<lparr>remote = 3000, localUri = ''http://localhost:3000'',
        local = Some 3000, name = None, description = None, closeable = Some True\<rparr>),
        (4000, \<lparr>remote = 4000, localUri = ''http://localhost:4000'',
        local = Some 4000, name = Some ''db'', description = None, closeable = None\<rparr>)],
      published = [], candidates = [], fired = [], calls = []\<rparr>) 3000
   \<and> name_op \<lparr>forwarded = [(3000, \<lparr>remote = 3000, localUri = ''http://localhost:3000'',
        local = Some 3000, name = None, description = None, closeable = Some True\<rparr>),
        (4000, \<lparr>remote = 4000, localUri = ''http://localhost:4000'',
        local = Some 4000, name = Some ''db'', description = None, closeable = None\<rparr>)],
      published = [], candidates = [], fired = [], calls = []\<rparr> 3000 ''web''
     = \<lparr>forwarded = [(3000, \<lparr>remote = 3000, localUri = ''http://localhost:3000'',
        local = Some 3000, name = Some ''web'', description = None, closeable = Some True\<rparr>),
        (4000, \<lparr>remote = 4000, localUri = ''http://localhost:4000'',
        local = Some 4000, name = Some ''db'', description = None, closeable = None\<rparr>)],
      published = [], candidates = [], fired = [PortName 3000], calls = []\<rparr>
   \<and> \<not> map_has (forwarded TunnelModel_new) 3000
   \<and> name_op TunnelModel_new 3000 ''web'' = TunnelModel_new"
  using name_op_effect [of "\<lparr>forwarded = [(3000, \<lparr>remote = 3000,
        localUri = ''http://localhost:3000'', local = Some 3000, name = None,
        description = None, closeable = Some True\<rparr>),
        (4000, \<lparr>remote = 4000, localUri = ''http://localhost:4000'',
        local = Some 4000, name = Some ''db'', description = None, closeable = None\<rparr>)],
      published = [], candidates = [], fired = [], calls = []\<rparr>" 3000 "''web''"]
    name_op_effect [of TunnelModel_new 3000 "''web''"]
  by (simp add: TunnelModel_new_def name_op_def)

subsection \<open>C9: the groups of the view\<close>

text \<open>
  C9: the groups are, in this order, the forwarded group exactly when
  \<^verbatim>\<open>forwarded\<close> is not empty, the published group exactly when \<^verbatim>\<open>published\<close> is not
  empty, the candidates group exactly when some candidate is a key of neither, and the
  group for adding a port, which is always there and always last. Each group carries
  the items of its getter; the candidates group those of the filtered list.
\<close>

theorem groups_order:
  "map (\<lambda>g. (tunnelType g, label g)) (groups m) =
     (if forwarded m \<noteq> [] then [(Forwarded, ''Forwarded'')] else []) @
     (if published m \<noteq> [] then [(Published, ''Published'')] else []) @
     (if filter (\<lambda>v. \<not> map_has (forwarded m) (remote v) \<and> \<not> map_has (published m) (remote v))
           (map_values (candidates m)) \<noteq> []
      then [(Candidate, ''Candidates'')] else []) @
     [(Add, ''Add a Port...'')]
   \<and> last (groups m) = \<lparr>label = ''Add a Port...'', tunnelType = Add, items = None\<rparr>
   \<and> (\<forall>g \<in> set (groups m).
        (tunnelType g = Forwarded \<longrightarrow> items g = Some (forwarded_items m)) \<and>
        (tunnelType g = Published \<longrightarrow> items g = Some (published_items m)) \<and>
        (tunnelType g = Candidate \<longrightarrow> items g = Some
           (map (\<lambda>v. TunnelItem Candidate (remote v) (Some False) None (description v) None)
              (filter (\<lambda>v. \<not> map_has (forwarded m) (remote v) \<and> \<not> map_has (published m) (remote v))
                 (map_values (candidates m))))))"
proof (intro conjI ballI)
  fix g assume g: "g \<in> set (groups m)"
  from groups_items [OF g]
  show "tunnelType g = Forwarded \<longrightarrow> items g = Some (forwarded_items m)"
    by simp
  from groups_items [OF g]
  show "tunnelType g = Published \<longrightarrow> items g = Some (published_items m)"
    by simp
  from groups_items [OF g]
  show "tunnelType g = Candidate \<longrightarrow> items g = Some
           (map (\<lambda>v. TunnelItem Candidate (remote v) (Some False) None (description v) None)
              (filter (\<lambda>v. \<not> map_has (forwarded m) (remote v) \<and> \<not> map_has (published m) (remote v))
                 (map_values (candidates m))))"
    by (simp add: candidates_items_filter)
qed (rule groups_types_labels, rule groups_last)

theorem groups_order_witness:
  "groups \<lparr>forwarded = [(3000, \<lparr>remote = 3000, localUri = ''http://localhost:3000'',
        local = Some 3000, name = Some ''web'', description = None, closeable = Some True\<rparr>)],
      published = [(5000, \<lparr>remote = 5000, localUri = ''http://published:5000'',
        local = None, name = None, description = None, closeable = None\<rparr>)],
      candidates = [(3000, \<lparr>remote = 3000, localUri = ''http://remote:3000'', local = None,
        name = None, description = Some ''node'', closeable = None\<rparr>),
        (4000, \<lparr>remote = 4000, localUri = ''http://remote:4000'', local = None,
        name = None, description = Some ''python'', closeable = None\<rparr>)],
      fired = [], calls = []\<rparr>
   = [\<lparr>label = ''Forwarded'', tunnelType = Forwarded,
       items = Some [TunnelItem Forwarded 3000 (Some True) (Some ''web'') None (Some 3000)]\<rparr>,
      \<lparr>label = ''Published'', tunnelType = Published,
       items = Some [TunnelItem Published 5000 (Some False) None None None]\<rparr>,
      \<lparr>label = ''Candidates'', tunnelType = Candidate,
       items = Some [TunnelItem Candidate 4000 (Some False) None (Some ''python'') None]\<rparr>,
      \<lparr>label = ''Add a Port...'', tunnelType = Add, items = None\<rparr>]
   \<and> groups TunnelModel_new = [\<lparr>label = ''Add a Port...'', tunnelType = Add, items = None\<rparr>]"
  using groups_order [of "\<lparr>forwarded = [(3000, \<lparr>remote = 3000,
        localUri = ''http://localhost:3000'', local = Some 3000, name = Some ''web'',
        description = None, closeable = Some True\<rparr>)],
      published = [(5000, \<lparr>remote = 5000, localUri = ''http://published:5000'',
        local = None, name = None, description = None, closeable = None\<rparr>)],
      candidates = [(3000, \<lparr>remote = 3000, localUri = ''http://remote:3000'', local = None,
        name = None, description = Some ''node'', closeable = None\<rparr>),
        (4000, \<lparr>remote = 4000, localUri = ''http://remote:4000'', local = None,
        name = None, description = Some ''python'', closeable = None\<rparr>)],
      fired = [], calls = []\<rparr>"]
    groups_order [of TunnelModel_new]
  by (simp add: groups_def Let_def map_size_def map_values_def forwarded_items_def
                published_items_def candidates_items_def TunnelModel_new_def)

subsection \<open>C10: nothing is ever published or a candidate\<close>

text \<open>
  C10: after any sequence of steps from the constructed model, \<^verbatim>\<open>published\<close> and
  \<^verbatim>\<open>candidates\<close> are empty, so \<^verbatim>\<open>address\<close> is a lookup in \<^verbatim>\<open>forwarded\<close> alone,
  the derived candidates are empty, and the groups are the forwarded group (when there
  is a forwarded port) and the group for adding a port.
\<close>

theorem run_published_candidates_empty:
  "published (run acts) = [] \<and> candidates (run acts) = []
   \<and> address (run acts) r = map_option localUri (map_get (forwarded (run acts)) r)
   \<and> candidates_items (run acts) = []
   \<and> map tunnelType (groups (run acts)) =
        (if forwarded (run acts) \<noteq> [] then [Forwarded] else []) @ [Add]"
  using run_empty [of acts]
  by (auto simp: address_def groups_def Let_def map_size_def candidates_items_def
                 map_values_def split: option.splits)

theorem run_published_candidates_empty_witness:
  "run [Forward 8080 None (Some ''web'')
          (Fulfilled (Some \<lparr>tunnelRemotePort = 8080, tunnelLocalPort = Some 8080,
                            localAddress = Some ''http://localhost:8080''\<rparr>)),
        TunnelOpened \<lparr>tunnelRemotePort = 8080, tunnelLocalPort = Some 8080,
                      localAddress = Some ''http://localhost:8080''\<rparr>,
        Name 8080 ''api'']
   = \<lparr>forwarded = [(8080, \<lparr>remote = 8080, localUri = ''http://localhost:8080'',
         local = Some 8080, name = Some ''api'', description = None, closeable = Some True\<rparr>)],
      published = [], candidates = [],
      fired = [ForwardPort (Some \<lparr>remote = 8080, localUri = ''http://localhost:8080'',
                 local = Some 8080, name = Some ''web'', description = None,
                 closeable = Some True\<rparr>),
               ForwardPort (Some \<lparr>remote = 8080, localUri = ''http://localhost:8080'',
                 local = Some 8080, name = Some ''web'', description = None,
                 closeable = Some True\<rparr>),
               PortName 8080],
      calls = [OpenTunnel 8080 None]\<rparr>
   \<and> address (run [Forward 8080 None (Some ''web'')
          (Fulfilled (Some \<lparr>tunnelRemotePort = 8080, tunnelLocalPort = Some 8080,
                            localAddress = Some ''http://localhost:8080''\<rparr>)),
        TunnelOpened \<lparr>tunnelRemotePort = 8080, tunnelLocalPort = Some 8080,
                      localAddress = Some ''http://localhost:8080''\<rparr>,
        Name 8080 ''api'']) 8080 = Some ''http://localhost:8080''
   \<and> map tunnelType (groups (run [Forward 8080 None (Some ''web'')
          (Fulfilled (Some \<lparr>tunnelRemotePort = 8080, tunnelLocalPort = Some 8080,
                            localAddress = Some ''http://localhost:8080''\<rparr>)),
        TunnelOpened \<lparr>tunnelRemotePort = 8080, tunnelLocalPort = Some 8080,
                      localAddress = Some ''http://localhost:8080''\<rparr>,
        Name 8080 ''api''])) = [Forwarded, Add]"
  using run_published_candidates_empty [of "[Forward 8080 None (Some ''web'')
          (Fulfilled (Some \<lparr>tunnelRemotePort = 8080, tunnelLocalPort = Some 8080,
                            localAddress = Some ''http://localhost:8080''\<rparr>)),
        TunnelOpened \<lparr>tunnelRemotePort = 8080, tunnelLocalPort = Some 8080,
                      localAddress = Some ''http://localhost:8080''\<rparr>,
        Name 8080 ''api'']" 8080]
  by (simp add: run_def TunnelModel_new_def forward_def forward_resume_def Let_def
                onTunnelOpened_def name_op_def)

end
